theory Spec2Isabelle
  imports Main
begin

section \<open>A book catalogue kept in a JSON file: \<open>books_crud.py\<close>\<close>

text \<open>
  The program keeps a list of book records in one JSON file. Every command loads the whole
  file with \<^verbatim>\<open>json.load\<close>, works on the loaded value and writes it back with
  \<^verbatim>\<open>json.dump(books, f, ensure_ascii=False, indent=2)\<close> followed by a newline.

  The embedding has three layers: the values \<^verbatim>\<open>json.load\<close> returns and the Python
  operations the program applies to them; the encoder and decoder of the \<^verbatim>\<open>json\<close>
  module, which the program calls but does not contain; and the functions of
  \<^verbatim>\<open>books_crud.py\<close> themselves, over an explicit state of the store file and the two
  output streams.
\<close>

subsection \<open>Loaded values and the Python operations on them\<close>

text \<open>
  \<^verbatim>\<open>load_books\<close> returns whatever \<^verbatim>\<open>json.load\<close> produced, so a catalogue is an
  arbitrary JSON value until some operation fails on it. A \<^verbatim>\<open>dict\<close> keeps its keys in
  insertion order, which \<^verbatim>\<open>json.dump\<close> writes out, so an object is an association list.
  Integers are unbounded. Numbers with a fraction or an exponent are floating point and
  are left out of the model.

  A \<^verbatim>\<open>str\<close> is a sequence of code points. It is held as a \<open>string\<close>, the bytes that the
  UTF-8 scheme gives its code points one after the other. For a \<^verbatim>\<open>str\<close> that
  \<^verbatim>\<open>str.encode("utf-8")\<close> accepts these are the bytes of its encoding, the bytes it has in
  the store file. A \<^verbatim>\<open>str\<close> may also hold surrogate code points, which Python puts there
  for the bytes of a command line argument that it could not decode; a surrogate takes
  three bytes that no UTF-8 text contains. So \<open>valid_utf8\<close> below says of the bytes of a
  file that \<^verbatim>\<open>open(..., encoding="utf-8")\<close> can read them, and of a \<^verbatim>\<open>str\<close> that it can
  be written to such a file.
\<close>

datatype json =
    JNull
  | JBool bool
  | JInt int
  | JStr string
  | JArr "json list"
  | JObj "(string \<times> json) list"

datatype py_exc =
    TypeError | KeyError | IndexError | AttributeError
  | UnicodeDecodeError | UnicodeEncodeError

text \<open>The well-formed byte sequences of UTF-8, as the decoder of Python accepts them:
  after a lead byte, the range of the second byte and the number of continuation bytes
  \<open>0x80\<close> to \<open>0xBF\<close> behind it. The lead bytes \<open>0xC0\<close>, \<open>0xC1\<close> and those above \<open>0xF4\<close> begin
  no sequence; the second byte after \<open>0xE0\<close> and \<open>0xF0\<close> excludes the overlong forms, after
  \<open>0xED\<close> the surrogates and after \<open>0xF4\<close> the code points above \<open>0x10FFFF\<close>.\<close>

definition lead_shape :: "nat \<Rightarrow> (nat \<times> nat \<times> nat) option" where
  "lead_shape b =
     (if 0xC2 \<le> b \<and> b \<le> 0xDF then Some (0x80, 0xBF, 0)
      else if b = 0xE0 then Some (0xA0, 0xBF, 1)
      else if b = 0xED then Some (0x80, 0x9F, 1)
      else if 0xE1 \<le> b \<and> b \<le> 0xEF then Some (0x80, 0xBF, 1)
      else if b = 0xF0 then Some (0x90, 0xBF, 2)
      else if 0xF1 \<le> b \<and> b \<le> 0xF3 then Some (0x80, 0xBF, 2)
      else if b = 0xF4 then Some (0x80, 0x8F, 2)
      else None)"

definition in_range :: "nat \<Rightarrow> nat \<Rightarrow> char \<Rightarrow> bool" where
  "in_range lo hi c \<longleftrightarrow> lo \<le> of_char c \<and> (of_char c :: nat) \<le> hi"

definition tail_ok :: "nat \<Rightarrow> nat \<Rightarrow> nat \<Rightarrow> string \<Rightarrow> bool" where
  "tail_ok lo hi k cs \<longleftrightarrow>
     Suc k \<le> length cs \<and> in_range lo hi (hd cs) \<and> list_all (in_range 0x80 0xBF) (take k (tl cs))"

text \<open>The length of the well-formed sequence that the byte \<open>c\<close> begins in front of \<open>cs\<close>,
  or \<open>0\<close> when it begins none.\<close>

definition seq_len :: "char \<Rightarrow> string \<Rightarrow> nat" where
  "seq_len c cs =
     (if (of_char c :: nat) < 0x80 then 1
      else (case lead_shape (of_char c) of
              None \<Rightarrow> 0
            | Some (lo, hi, k) \<Rightarrow> if tail_ok lo hi k cs then k + 2 else 0))"

fun valid_utf8 :: "string \<Rightarrow> bool" where
  "valid_utf8 [] = True"
| "valid_utf8 (c # cs) = (case seq_len c cs of 0 \<Rightarrow> False | Suc n \<Rightarrow> valid_utf8 (drop n cs))"

text \<open>\<^verbatim>\<open>for b in books\<close>: a list yields its elements, a dict its keys, a string its
  characters; nothing else is iterable.\<close>

fun py_iter :: "json \<Rightarrow> py_exc + json list" where
  "py_iter (JArr xs) = Inr xs"
| "py_iter (JObj kvs) = Inr (map (\<lambda>(k, v). JStr k) kvs)"
| "py_iter (JStr s) = Inr (map (\<lambda>c. JStr [c]) s)"
| "py_iter JNull = Inl TypeError"
| "py_iter (JBool b) = Inl TypeError"
| "py_iter (JInt i) = Inl TypeError"

text \<open>\<^verbatim>\<open>b["id"]\<close>: only a dict can be subscripted with a string, and the key has to be
  there.\<close>

fun getitem :: "json \<Rightarrow> string \<Rightarrow> py_exc + json" where
  "getitem (JObj kvs) k = (case map_of kvs k of None \<Rightarrow> Inl KeyError | Some v \<Rightarrow> Inr v)"
| "getitem JNull k = Inl TypeError"
| "getitem (JBool b) k = Inl TypeError"
| "getitem (JInt i) k = Inl TypeError"
| "getitem (JStr s) k = Inl TypeError"
| "getitem (JArr xs) k = Inl TypeError"

text \<open>\<^verbatim>\<open>b["id"] == book_id\<close> with an \<^verbatim>\<open>int\<close> on the right: \<^verbatim>\<open>bool\<close> is a subclass of
  \<^verbatim>\<open>int\<close> in Python, so \<^verbatim>\<open>True == 1\<close> and \<^verbatim>\<open>False == 0\<close>.\<close>

fun py_eq_int :: "json \<Rightarrow> int \<Rightarrow> bool" where
  "py_eq_int (JInt i) n = (i = n)"
| "py_eq_int (JBool b) n = ((if b then 1 else 0) = n)"
| "py_eq_int JNull n = False"
| "py_eq_int (JStr s) n = False"
| "py_eq_int (JArr xs) n = False"
| "py_eq_int (JObj kvs) n = False"

text \<open>\<^verbatim>\<open>d[k] = v\<close> on a dict: an existing key keeps its place, a new key goes to the end.\<close>

fun dict_setitem :: "(string \<times> json) list \<Rightarrow> string \<Rightarrow> json \<Rightarrow> (string \<times> json) list" where
  "dict_setitem [] k v = [(k, v)]"
| "dict_setitem ((k', v') # kvs) k v =
     (if k' = k then (k', v) # kvs else (k', v') # dict_setitem kvs k v)"

text \<open>\<^verbatim>\<open>book[k] = v\<close>, \<^verbatim>\<open>books[idx]\<close>, \<^verbatim>\<open>books[idx] = book\<close>, \<^verbatim>\<open>books.append(book)\<close> and
  \<^verbatim>\<open>books.pop(idx)\<close> on a loaded value. The program reaches the indexed operations only
  with an index that \<^verbatim>\<open>get_book_index\<close> returned, hence only on a list
  (\<open>get_book_index_array\<close> below); the other equations record what Python does where a
  JSON value can express it. A dict indexed by an integer raises \<^verbatim>\<open>KeyError\<close> on reading,
  which the program always does before it writes.\<close>

fun py_setitem :: "json \<Rightarrow> string \<Rightarrow> json \<Rightarrow> py_exc + json" where
  "py_setitem (JObj kvs) k v = Inr (JObj (dict_setitem kvs k v))"
| "py_setitem JNull k v = Inl TypeError"
| "py_setitem (JBool b) k v = Inl TypeError"
| "py_setitem (JInt i) k v = Inl TypeError"
| "py_setitem (JStr s) k v = Inl TypeError"
| "py_setitem (JArr xs) k v = Inl TypeError"

fun py_index :: "json \<Rightarrow> nat \<Rightarrow> py_exc + json" where
  "py_index (JArr xs) i = (if i < length xs then Inr (xs ! i) else Inl IndexError)"
| "py_index (JStr s) i = (if i < length s then Inr (JStr [s ! i]) else Inl IndexError)"
| "py_index (JObj kvs) i = Inl KeyError"
| "py_index JNull i = Inl TypeError"
| "py_index (JBool b) i = Inl TypeError"
| "py_index (JInt n) i = Inl TypeError"

fun py_setindex :: "json \<Rightarrow> nat \<Rightarrow> json \<Rightarrow> py_exc + json" where
  "py_setindex (JArr xs) i v = (if i < length xs then Inr (JArr (xs[i := v])) else Inl IndexError)"
| "py_setindex (JObj kvs) i v = Inl KeyError"
| "py_setindex JNull i v = Inl TypeError"
| "py_setindex (JBool b) i v = Inl TypeError"
| "py_setindex (JInt n) i v = Inl TypeError"
| "py_setindex (JStr s) i v = Inl TypeError"

fun py_append :: "json \<Rightarrow> json \<Rightarrow> py_exc + json" where
  "py_append (JArr xs) v = Inr (JArr (xs @ [v]))"
| "py_append JNull v = Inl AttributeError"
| "py_append (JBool b) v = Inl AttributeError"
| "py_append (JInt n) v = Inl AttributeError"
| "py_append (JStr s) v = Inl AttributeError"
| "py_append (JObj kvs) v = Inl AttributeError"

fun py_pop :: "json \<Rightarrow> nat \<Rightarrow> py_exc + json \<times> json" where
  "py_pop (JArr xs) i =
     (if i < length xs then Inr (xs ! i, JArr (take i xs @ drop (Suc i) xs)) else Inl IndexError)"
| "py_pop (JObj kvs) i = Inl KeyError"
| "py_pop JNull i = Inl AttributeError"
| "py_pop (JBool b) i = Inl AttributeError"
| "py_pop (JInt n) i = Inl AttributeError"
| "py_pop (JStr s) i = Inl AttributeError"

subsection \<open>The encoder: \<^verbatim>\<open>json.dump\<close> and \<^verbatim>\<open>json.dumps\<close> with \<^verbatim>\<open>ensure_ascii=False\<close>\<close>

text \<open>
  The \<^verbatim>\<open>json\<close> module is Python's, not the repository's; the encoder and decoder below
  follow its documented behaviour on the values of type \<open>json\<close>. With
  \<^verbatim>\<open>ensure_ascii=False\<close> a string is written as it is, except for the quote, the
  backslash and the control characters below \<open>0x20\<close>; the bytes of a code point beyond
  ASCII are all \<open>0x80\<close> or more and stay as they are. With \<^verbatim>\<open>indent=2\<close> every item of a
  non-empty list or dict starts a new line, indented by two spaces per level, and items
  are separated by a comma; without \<^verbatim>\<open>indent\<close> they are separated by a comma and a
  space. The flag \<open>pretty\<close> says that \<^verbatim>\<open>indent=2\<close> was given.
\<close>

definition digit_char :: "nat \<Rightarrow> char" where
  "digit_char d = ''0123456789abcdef'' ! d"

fun digits :: "nat \<Rightarrow> string" where
  "digits n = (if n < 10 then [digit_char n] else digits (n div 10) @ [digit_char (n mod 10)])"

declare digits.simps [simp del]

text \<open>\<^verbatim>\<open>str(i)\<close> of an \<^verbatim>\<open>int\<close>, as \<^verbatim>\<open>json.dump\<close> and the f-strings of the program
  print it.\<close>

definition int_repr :: "int \<Rightarrow> string" where
  "int_repr i = (if i < 0 then CHR ''-'' # digits (nat (- i)) else digits (nat i))"

definition escape_char :: "char \<Rightarrow> string" where
  "escape_char c =
     (if c = CHR 0x22 then [CHR 0x5C, CHR 0x22]
      else if c = CHR 0x5C then [CHR 0x5C, CHR 0x5C]
      else if c = CHR 0x0A then [CHR 0x5C, CHR ''n'']
      else if c = CHR 0x0D then [CHR 0x5C, CHR ''r'']
      else if c = CHR 0x09 then [CHR 0x5C, CHR ''t'']
      else if c = CHR 0x08 then [CHR 0x5C, CHR ''b'']
      else if c = CHR 0x0C then [CHR 0x5C, CHR ''f'']
      else if (of_char c :: nat) < 0x20
        then [CHR 0x5C, CHR ''u'', CHR ''0'', CHR ''0'',
              digit_char (of_char c div 16), digit_char (of_char c mod 16)]
      else [c])"

definition encode_basestring :: "string \<Rightarrow> string" where
  "encode_basestring s = CHR 0x22 # concat (map escape_char s) @ [CHR 0x22]"

definition newline_indent :: "bool \<Rightarrow> nat \<Rightarrow> string" where
  "newline_indent pretty level =
     (if pretty then CHR 0x0A # replicate (2 * level) CHR '' '' else [])"

definition item_separator :: "bool \<Rightarrow> string" where
  "item_separator pretty = (if pretty then '','' else '', '')"

fun join :: "'a list \<Rightarrow> 'a list list \<Rightarrow> 'a list" where
  "join sep [] = []"
| "join sep [x] = x"
| "join sep (x # y # ys) = x @ sep @ join sep (y # ys)"

fun iterencode :: "bool \<Rightarrow> nat \<Rightarrow> json \<Rightarrow> string" where
  "iterencode pretty level JNull = ''null''"
| "iterencode pretty level (JBool b) = (if b then ''true'' else ''false'')"
| "iterencode pretty level (JInt i) = int_repr i"
| "iterencode pretty level (JStr s) = encode_basestring s"
| "iterencode pretty level (JArr xs) =
     (if xs = [] then ''[]''
      else ''['' @ newline_indent pretty (Suc level)
           @ join (item_separator pretty @ newline_indent pretty (Suc level))
               (map (iterencode pretty (Suc level)) xs)
           @ newline_indent pretty level @ '']'')"
| "iterencode pretty level (JObj kvs) =
     (if kvs = [] then ''{}''
      else ''{'' @ newline_indent pretty (Suc level)
           @ join (item_separator pretty @ newline_indent pretty (Suc level))
               (map (\<lambda>(k, v). encode_basestring k @ '': '' @ iterencode pretty (Suc level) v) kvs)
           @ newline_indent pretty level @ ''}'')"

definition json_dumps :: "bool \<Rightarrow> json \<Rightarrow> string" where
  "json_dumps pretty v = iterencode pretty 0 v"

text \<open>
  \<^verbatim>\<open>json.dump\<close> with \<^verbatim>\<open>indent=2\<close> does not build the text: it writes it to the file in
  pieces, one call of \<^verbatim>\<open>write\<close> for each. \<open>dump_chunks\<close> lists the pieces. In a list, an
  item that is a string, a number, \<^verbatim>\<open>null\<close>, \<^verbatim>\<open>true\<close> or \<^verbatim>\<open>false\<close> is one piece together
  with what stands in front of it, the opening bracket or the separator with the
  indentation; in front of an item that is a list or a dict, that is a piece of its own.
  In a dict the opening brace, the indentation, the separator, each key, the colon and a
  value that is not a list or a dict are a piece each.
\<close>

definition with_buf :: "string \<Rightarrow> json \<Rightarrow> string list \<Rightarrow> string list" where
  "with_buf buf v cs =
     (case v of JArr xs \<Rightarrow> buf # cs | JObj kvs \<Rightarrow> buf # cs | _ \<Rightarrow> [buf @ concat cs])"

fun list_chunks :: "string \<Rightarrow> string \<Rightarrow> (json \<times> string list) list \<Rightarrow> string list" where
  "list_chunks buf sep [] = []"
| "list_chunks buf sep ((v, cs) # rest) = with_buf buf v cs @ list_chunks sep sep rest"

fun dump_chunks :: "nat \<Rightarrow> json \<Rightarrow> string list" where
  "dump_chunks level JNull = [''null'']"
| "dump_chunks level (JBool b) = [if b then ''true'' else ''false'']"
| "dump_chunks level (JInt i) = [int_repr i]"
| "dump_chunks level (JStr s) = [encode_basestring s]"
| "dump_chunks level (JArr xs) =
     (if xs = [] then [''[]'']
      else list_chunks (''['' @ newline_indent True (Suc level))
                       ('','' @ newline_indent True (Suc level))
                       (map (\<lambda>x. (x, dump_chunks (Suc level) x)) xs)
           @ [newline_indent True level, '']''])"
| "dump_chunks level (JObj kvs) =
     (if kvs = [] then [''{}'']
      else [''{'', newline_indent True (Suc level)]
           @ join ['','' @ newline_indent True (Suc level)]
               (map (\<lambda>(k, v). [encode_basestring k, '': ''] @ dump_chunks (Suc level) v) kvs)
           @ [newline_indent True level, ''}''])"

subsection \<open>The decoder: \<^verbatim>\<open>json.load\<close>\<close>

text \<open>
  A scan either stops or returns a value and the rest of the text. It stops with
  \<open>JSONDecodeError\<close> where Python raises that exception. It stops with \<open>Unmodelled\<close>
  where Python goes on with a value that \<open>json\<close> does not have: a number with a
  fraction or an exponent, \<^verbatim>\<open>NaN\<close>, \<^verbatim>\<open>Infinity\<close>, or a \<^verbatim>\<open>\u\<close> escape of a code point
  beyond ASCII. The recursion of the scanner is bounded by a counter, which \<open>json_loads\<close>
  starts at the length of the text; \<open>OutOfFuel\<close> says that the counter ran out.
\<close>

datatype scan_error = JSONDecodeError | Unmodelled | OutOfFuel

type_synonym 'a scan = "scan_error + 'a \<times> string"

definition is_ws :: "char \<Rightarrow> bool" where
  "is_ws c \<longleftrightarrow> c = CHR '' '' \<or> c = CHR 0x09 \<or> c = CHR 0x0A \<or> c = CHR 0x0D"

definition skip_ws :: "string \<Rightarrow> string" where
  "skip_ws s = dropWhile is_ws s"

definition is_digit :: "char \<Rightarrow> bool" where
  "is_digit c \<longleftrightarrow> (48::nat) \<le> of_char c \<and> (of_char c :: nat) \<le> 57"

definition hex_value :: "char \<Rightarrow> nat option" where
  "hex_value c =
     (let n = of_char c in
      if 48 \<le> n \<and> n \<le> 57 then Some (n - 48)
      else if 97 \<le> n \<and> n \<le> 102 then Some (n - 87)
      else if 65 \<le> n \<and> n \<le> 70 then Some (n - 55)
      else None)"

definition unescape :: "char \<Rightarrow> char option" where
  "unescape e =
     (if e = CHR 0x22 then Some (CHR 0x22)
      else if e = CHR 0x5C then Some (CHR 0x5C)
      else if e = CHR ''/'' then Some (CHR ''/'')
      else if e = CHR ''b'' then Some (CHR 0x08)
      else if e = CHR ''f'' then Some (CHR 0x0C)
      else if e = CHR ''n'' then Some (CHR 0x0A)
      else if e = CHR ''r'' then Some (CHR 0x0D)
      else if e = CHR ''t'' then Some (CHR 0x09)
      else None)"

definition scan_cons :: "'a \<Rightarrow> 'a list scan \<Rightarrow> 'a list scan" where
  "scan_cons x r = (case r of Inl e \<Rightarrow> Inl e | Inr (xs, rest) \<Rightarrow> Inr (x # xs, rest))"

definition unicode_escape :: "string \<Rightarrow> scan_error + char" where
  "unicode_escape hs =
     (case those (map hex_value hs) of
        None \<Rightarrow> Inl JSONDecodeError
      | Some ds \<Rightarrow>
          (let n = foldl (\<lambda>a d. 16 * a + d) 0 ds
           in if n < 128 then Inr (char_of n) else Inl Unmodelled))"

text \<open>The text after an opening quote, up to and including the closing one.\<close>

fun scanstring :: "string \<Rightarrow> string scan" where
  "scanstring [] = Inl JSONDecodeError"
| "scanstring (c # cs) =
     (if c = CHR 0x22 then Inr ([], cs)
      else if c = CHR 0x5C then
        (case cs of
           [] \<Rightarrow> Inl JSONDecodeError
         | e # cs' \<Rightarrow>
             if e = CHR ''u'' then
               (case cs' of
                  h1 # h2 # h3 # h4 # cs'' \<Rightarrow>
                    (case unicode_escape [h1, h2, h3, h4] of
                       Inl err \<Rightarrow> Inl err
                     | Inr x \<Rightarrow> scan_cons x (scanstring cs''))
                | _ \<Rightarrow> Inl JSONDecodeError)
             else
               (case unescape e of
                  None \<Rightarrow> Inl JSONDecodeError
                | Some x \<Rightarrow> scan_cons x (scanstring cs')))
      else if (of_char c :: nat) < 0x20 then Inl JSONDecodeError
      else scan_cons c (scanstring cs))"

text \<open>After the integer part of a number: does a fraction or an exponent follow?\<close>

definition is_float_tail :: "string \<Rightarrow> bool" where
  "is_float_tail r =
     (case r of
        [] \<Rightarrow> False
      | c # r' \<Rightarrow>
          if c = CHR ''.'' then (case r' of [] \<Rightarrow> False | d # _ \<Rightarrow> is_digit d)
          else if c = CHR ''e'' \<or> c = CHR ''E'' then
            (case r' of
               [] \<Rightarrow> False
             | d # r'' \<Rightarrow>
                 if d = CHR ''-'' \<or> d = CHR ''+''
                 then (case r'' of [] \<Rightarrow> False | d' # _ \<Rightarrow> is_digit d')
                 else is_digit d)
          else False)"

definition digits_value :: "string \<Rightarrow> nat" where
  "digits_value ds = foldl (\<lambda>a d. 10 * a + (of_char d - 48)) 0 ds"

text \<open>An optional minus sign, then either a single \<open>0\<close> or a run of digits.\<close>

definition match_number :: "string \<Rightarrow> json scan" where
  "match_number s =
     (let neg = (s \<noteq> [] \<and> hd s = CHR ''-'');
          r = (if neg then tl s else s)
      in case r of
           [] \<Rightarrow> Inl JSONDecodeError
         | d # r' \<Rightarrow>
             if \<not> is_digit d then Inl JSONDecodeError
             else
               (let ds = (if d = CHR ''0'' then [d] else d # takeWhile is_digit r');
                    rest = (if d = CHR ''0'' then r' else dropWhile is_digit r')
                in if is_float_tail rest then Inl Unmodelled
                   else Inr (JInt ((if neg then - 1 else 1) * int (digits_value ds)), rest)))"

text \<open>The decoder builds a dict from the pairs in the order read: a repeated key keeps its
  first place and takes its last value.\<close>

definition dict_of_pairs :: "(string \<times> json) list \<Rightarrow> (string \<times> json) list" where
  "dict_of_pairs ps = foldl (\<lambda>d (k, v). dict_setitem d k v) [] ps"

definition starts_with :: "string \<Rightarrow> string \<Rightarrow> bool" where
  "starts_with p s \<longleftrightarrow> take (length p) s = p"

text \<open>\<open>scan_once\<close> reads one value at the head of the text. \<open>parse_array\<close> and
  \<open>parse_object\<close> read the items of a non-empty list or dict, after the opening bracket
  and the white space behind it, up to and including the closing bracket.\<close>

fun scan_once :: "nat \<Rightarrow> string \<Rightarrow> json scan"
and parse_array :: "nat \<Rightarrow> string \<Rightarrow> json list scan"
and parse_object :: "nat \<Rightarrow> string \<Rightarrow> (string \<times> json) list scan"
where
  "scan_once n [] = Inl JSONDecodeError"
| "scan_once 0 (c # cs) = Inl OutOfFuel"
| "scan_once (Suc n) (c # cs) =
     (if c = CHR 0x22 then
        (case scanstring cs of Inl e \<Rightarrow> Inl e | Inr (s, r) \<Rightarrow> Inr (JStr s, r))
      else if c = CHR ''{'' then
        (case skip_ws cs of
           [] \<Rightarrow> Inl JSONDecodeError
         | d # r \<Rightarrow>
             if d = CHR ''}'' then Inr (JObj [], r)
             else (case parse_object n (d # r) of
                     Inl e \<Rightarrow> Inl e
                   | Inr (ps, r') \<Rightarrow> Inr (JObj (dict_of_pairs ps), r')))
      else if c = CHR ''['' then
        (case skip_ws cs of
           [] \<Rightarrow> Inl JSONDecodeError
         | d # r \<Rightarrow>
             if d = CHR '']'' then Inr (JArr [], r)
             else (case parse_array n (d # r) of
                     Inl e \<Rightarrow> Inl e
                   | Inr (xs, r') \<Rightarrow> Inr (JArr xs, r')))
      else if starts_with ''null'' (c # cs) then Inr (JNull, drop 3 cs)
      else if starts_with ''true'' (c # cs) then Inr (JBool True, drop 3 cs)
      else if starts_with ''false'' (c # cs) then Inr (JBool False, drop 4 cs)
      else if starts_with ''NaN'' (c # cs) \<or> starts_with ''Infinity'' (c # cs)
              \<or> starts_with ''-Infinity'' (c # cs) then Inl Unmodelled
      else match_number (c # cs))"
| "parse_array n s =
     (case scan_once n s of
        Inl e \<Rightarrow> Inl e
      | Inr (x, r) \<Rightarrow>
          (case skip_ws r of
             [] \<Rightarrow> Inl JSONDecodeError
           | d # r' \<Rightarrow>
               if d = CHR '']'' then Inr ([x], r')
               else if d = CHR '','' then
                 (case n of
                    0 \<Rightarrow> Inl OutOfFuel
                  | Suc m \<Rightarrow> scan_cons x (parse_array m (skip_ws r')))
               else Inl JSONDecodeError))"
| "parse_object n s =
     (case s of
        [] \<Rightarrow> Inl JSONDecodeError
      | c # cs \<Rightarrow>
          if c \<noteq> CHR 0x22 then Inl JSONDecodeError
          else
            (case scanstring cs of
               Inl e \<Rightarrow> Inl e
             | Inr (k, r) \<Rightarrow>
                 (case skip_ws r of
                    [] \<Rightarrow> Inl JSONDecodeError
                  | d # r' \<Rightarrow>
                      if d \<noteq> CHR '':'' then Inl JSONDecodeError
                      else
                        (case scan_once n (skip_ws r') of
                           Inl e \<Rightarrow> Inl e
                         | Inr (v, r'') \<Rightarrow>
                             (case skip_ws r'' of
                                [] \<Rightarrow> Inl JSONDecodeError
                              | d' # r3 \<Rightarrow>
                                  if d' = CHR ''}'' then Inr ([(k, v)], r3)
                                  else if d' = CHR '','' then
                                    (case n of
                                       0 \<Rightarrow> Inl OutOfFuel
                                     | Suc m \<Rightarrow> scan_cons (k, v) (parse_object m (skip_ws r3)))
                                  else Inl JSONDecodeError)))))"

text \<open>The whole document: white space, one value, white space, and nothing else.\<close>

definition json_loads :: "string \<Rightarrow> scan_error + json" where
  "json_loads s =
     (case scan_once (length s) (skip_ws s) of
        Inl e \<Rightarrow> Inl e
      | Inr (v, r) \<Rightarrow> if skip_ws r = [] then Inr v else Inl JSONDecodeError)"

subsection \<open>The store file and the output streams\<close>

text \<open>
  \<open>books_file\<close> is the path \<^verbatim>\<open>BOOKS_FILE\<close>, fixed when the module is loaded; \<open>content\<close> is
  the bytes of the file at that path, \<open>None\<close> when there is no such file; \<open>stdout\<close> and
  \<open>stderr\<close> hold the lines printed so far.

  A function returns, or leaves through \<^verbatim>\<open>sys.exit\<close>, or raises an exception that
  nothing catches (the interpreter then prints a traceback and the exit status is 1).
  \<open>NotModelled\<close> is the outcome where the decoder stopped outside the model.
\<close>

record world =
  books_file :: string
  content :: "string option"
  stdout :: "string list"
  stderr :: "string list"

datatype 'a outcome =
    Return 'a world
  | SysExit nat world
  | Uncaught py_exc world
  | NotModelled

fun exit_status :: "'a outcome \<Rightarrow> nat option" where
  "exit_status (Return x w) = Some 0"
| "exit_status (SysExit n w) = Some n"
| "exit_status (Uncaught e w) = Some 1"
| "exit_status NotModelled = None"

fun final_world :: "'a outcome \<Rightarrow> world option" where
  "final_world (Return x w) = Some w"
| "final_world (SysExit n w) = Some w"
| "final_world (Uncaught e w) = Some w"
| "final_world NotModelled = None"

definition print_out :: "string \<Rightarrow> world \<Rightarrow> world" where
  "print_out line w = w\<lparr>stdout := stdout w @ [line]\<rparr>"

definition print_err :: "string \<Rightarrow> world \<Rightarrow> world" where
  "print_err line w = w\<lparr>stderr := stderr w @ [line]\<rparr>"

subsection \<open>Loading, saving and looking up\<close>

text \<open>\<^verbatim>\<open>json.load(f)\<close> reads the whole file, which was opened with \<^verbatim>\<open>encoding="utf-8"\<close>:
  bytes that are not UTF-8 raise \<^verbatim>\<open>UnicodeDecodeError\<close>. That is not a
  \<^verbatim>\<open>json.JSONDecodeError\<close>, the only exception that \<^verbatim>\<open>load_books\<close> catches.\<close>

definition load_books :: "world \<Rightarrow> json outcome" where
  "load_books w =
     (case content w of
        None \<Rightarrow> Return (JArr []) w
      | Some text \<Rightarrow>
          if \<not> valid_utf8 text then Uncaught UnicodeDecodeError w
          else
            (case json_loads text of
               Inr books \<Rightarrow> Return books w
             | Inl e \<Rightarrow>
                 (case e of
                    JSONDecodeError \<Rightarrow>
                      SysExit 1 (print_err (''Error: '' @ books_file w @ '' is not valid JSON.'') w)
                  | Unmodelled \<Rightarrow> NotModelled
                  | OutOfFuel \<Rightarrow> NotModelled)))"

text \<open>\<^verbatim>\<open>open(BOOKS_FILE, "w", encoding="utf-8")\<close> empties the file, and every
  \<^verbatim>\<open>write\<close> encodes its piece. The first piece that UTF-8 cannot encode raises
  \<^verbatim>\<open>UnicodeEncodeError\<close>; leaving the \<^verbatim>\<open>with\<close> block closes the file, which then holds
  the pieces written before.\<close>

definition save_books :: "json \<Rightarrow> world \<Rightarrow> unit outcome" where
  "save_books books w =
     (let chunks = dump_chunks 0 books @ [[CHR 0x0A]]
      in if list_all valid_utf8 chunks
         then Return () (w\<lparr>content := Some (concat chunks)\<rparr>)
         else Uncaught UnicodeEncodeError
                (w\<lparr>content := Some (concat (takeWhile valid_utf8 chunks))\<rparr>))"

text \<open>\<^verbatim>\<open>any(b["id"] == book_id for b in books)\<close>: the elements are visited in order, the
  first match ends the search, and an element that cannot be subscripted before a match
  raises.\<close>

fun any_id_eq :: "json list \<Rightarrow> int \<Rightarrow> py_exc + bool" where
  "any_id_eq [] book_id = Inr False"
| "any_id_eq (b # bs) book_id =
     (case getitem b ''id'' of
        Inl e \<Rightarrow> Inl e
      | Inr v \<Rightarrow> if py_eq_int v book_id then Inr True else any_id_eq bs book_id)"

definition ensure_unique_id :: "json \<Rightarrow> int \<Rightarrow> world \<Rightarrow> unit outcome" where
  "ensure_unique_id books book_id w =
     (case py_iter books of
        Inl e \<Rightarrow> Uncaught e w
      | Inr bs \<Rightarrow>
          (case any_id_eq bs book_id of
             Inl e \<Rightarrow> Uncaught e w
           | Inr found \<Rightarrow>
               if found
               then SysExit 1
                      (print_err (''Error: A book with id '' @ int_repr book_id @ '' already exists.'') w)
               else Return () w))"

text \<open>\<^verbatim>\<open>for i, b in enumerate(books): if b["id"] == book_id: return i\<close>, counting from
  \<open>i\<close>.\<close>

fun enumerate_find :: "nat \<Rightarrow> json list \<Rightarrow> int \<Rightarrow> py_exc + nat option" where
  "enumerate_find i [] book_id = Inr None"
| "enumerate_find i (b # bs) book_id =
     (case getitem b ''id'' of
        Inl e \<Rightarrow> Inl e
      | Inr v \<Rightarrow> if py_eq_int v book_id then Inr (Some i) else enumerate_find (Suc i) bs book_id)"

definition get_book_index :: "json \<Rightarrow> int \<Rightarrow> world \<Rightarrow> nat outcome" where
  "get_book_index books book_id w =
     (case py_iter books of
        Inl e \<Rightarrow> Uncaught e w
      | Inr bs \<Rightarrow>
          (case enumerate_find 0 bs book_id of
             Inl e \<Rightarrow> Uncaught e w
           | Inr (Some i) \<Rightarrow> Return i w
           | Inr None \<Rightarrow>
               SysExit 1
                 (print_err (''Error: Book with id '' @ int_repr book_id @ '' not found.'') w)))"

subsection \<open>The commands\<close>

text \<open>
  The argument records are the \<^verbatim>\<open>argparse\<close> namespaces that \<^verbatim>\<open>build_parser\<close> produces.
  For \<^verbatim>\<open>add\<close> every attribute has a value: \<^verbatim>\<open>--genres\<close> defaults to the empty list and
  \<^verbatim>\<open>in_stock\<close> to \<^verbatim>\<open>True\<close>. For \<^verbatim>\<open>update\<close> every attribute but \<^verbatim>\<open>id\<close> is \<^verbatim>\<open>None\<close> unless its
  option was given; \<^verbatim>\<open>--genres\<close> with no token gives the empty list, not \<^verbatim>\<open>None\<close>.
\<close>

record add_args =
  add_id :: int
  add_title :: string
  add_author :: string
  add_year :: int
  add_genres :: "string list"
  add_in_stock :: bool

record update_args =
  upd_id :: int
  upd_title :: "string option"
  upd_author :: "string option"
  upd_year :: "int option"
  upd_genres :: "string list option"
  upd_in_stock :: "bool option"

text \<open>The namespace of \<^verbatim>\<open>add\<close> from the options on the command line: the four required
  ones, \<^verbatim>\<open>--genres\<close> if given, and \<^verbatim>\<open>--in-stock\<close> (\<open>Some True\<close>) or \<^verbatim>\<open>--out-of-stock\<close>
  (\<open>Some False\<close>) if one of them was given.\<close>

definition sp_add :: "int \<Rightarrow> string \<Rightarrow> string \<Rightarrow> int \<Rightarrow> string list option \<Rightarrow> bool option \<Rightarrow> add_args" where
  "sp_add i t a y g s =
     \<lparr>add_id = i, add_title = t, add_author = a, add_year = y,
      add_genres = (case g of None \<Rightarrow> [] | Some gs \<Rightarrow> gs),
      add_in_stock = (case s of None \<Rightarrow> True | Some b \<Rightarrow> b)\<rparr>"

definition cmd_init :: "world \<Rightarrow> unit outcome" where
  "cmd_init w =
     (if content w \<noteq> None then Return () (print_out (books_file w @ '' already exists.'') w)
      else (case save_books (JArr []) w of
              Return u w1 \<Rightarrow> Return () (print_out (''Created empty '' @ books_file w) w1)
            | SysExit n w1 \<Rightarrow> SysExit n w1
            | Uncaught e w1 \<Rightarrow> Uncaught e w1
            | NotModelled \<Rightarrow> NotModelled))"

definition cmd_list :: "bool \<Rightarrow> world \<Rightarrow> unit outcome" where
  "cmd_list pretty w =
     (case load_books w of
        Return books w1 \<Rightarrow> Return () (print_out (json_dumps pretty books) w1)
      | SysExit n w1 \<Rightarrow> SysExit n w1
      | Uncaught e w1 \<Rightarrow> Uncaught e w1
      | NotModelled \<Rightarrow> NotModelled)"

definition cmd_get :: "int \<Rightarrow> world \<Rightarrow> unit outcome" where
  "cmd_get book_id w =
     (case load_books w of
        SysExit n w1 \<Rightarrow> SysExit n w1
      | Uncaught e w1 \<Rightarrow> Uncaught e w1
      | NotModelled \<Rightarrow> NotModelled
      | Return books w1 \<Rightarrow>
          (case get_book_index books book_id w1 of
             SysExit n w2 \<Rightarrow> SysExit n w2
           | Uncaught e w2 \<Rightarrow> Uncaught e w2
           | NotModelled \<Rightarrow> NotModelled
           | Return idx w2 \<Rightarrow>
               (case py_index books idx of
                  Inl e \<Rightarrow> Uncaught e w2
                | Inr book \<Rightarrow> Return () (print_out (json_dumps True book) w2))))"

text \<open>The dict literal of \<^verbatim>\<open>cmd_add\<close>; \<^verbatim>\<open>args.genres or []\<close> replaces an empty list by a
  new empty list.\<close>

definition new_book :: "add_args \<Rightarrow> json" where
  "new_book args =
     JObj [(''id'', JInt (add_id args)),
           (''title'', JStr (add_title args)),
           (''author'', JStr (add_author args)),
           (''year'', JInt (add_year args)),
           (''genres'', JArr (map JStr (if add_genres args = [] then [] else add_genres args))),
           (''in_stock'', JBool (add_in_stock args))]"

definition cmd_add :: "add_args \<Rightarrow> world \<Rightarrow> unit outcome" where
  "cmd_add args w =
     (case load_books w of
        SysExit n w1 \<Rightarrow> SysExit n w1
      | Uncaught e w1 \<Rightarrow> Uncaught e w1
      | NotModelled \<Rightarrow> NotModelled
      | Return books w1 \<Rightarrow>
          (case ensure_unique_id books (add_id args) w1 of
             SysExit n w2 \<Rightarrow> SysExit n w2
           | Uncaught e w2 \<Rightarrow> Uncaught e w2
           | NotModelled \<Rightarrow> NotModelled
           | Return u w2 \<Rightarrow>
               (case py_append books (new_book args) of
                  Inl e \<Rightarrow> Uncaught e w2
                | Inr books' \<Rightarrow>
                    (case save_books books' w2 of
                       SysExit n w3 \<Rightarrow> SysExit n w3
                     | Uncaught e w3 \<Rightarrow> Uncaught e w3
                     | NotModelled \<Rightarrow> NotModelled
                     | Return u' w3 \<Rightarrow>
                         Return () (print_out (''Added book id '' @ int_repr (add_id args)) w3)))))"

text \<open>One \<^verbatim>\<open>if args.x is not None: book["x"] = args.x\<close>.\<close>

definition set_if_given :: "string \<Rightarrow> json option \<Rightarrow> json \<Rightarrow> py_exc + json" where
  "set_if_given k arg book = (case arg of None \<Rightarrow> Inr book | Some v \<Rightarrow> py_setitem book k v)"

definition then_set :: "py_exc + json \<Rightarrow> string \<Rightarrow> json option \<Rightarrow> py_exc + json" where
  "then_set r k arg = (case r of Inl e \<Rightarrow> Inl e | Inr book \<Rightarrow> set_if_given k arg book)"

definition apply_update :: "update_args \<Rightarrow> json \<Rightarrow> py_exc + json" where
  "apply_update args book =
     then_set (then_set (then_set (then_set
       (set_if_given ''title'' (map_option JStr (upd_title args)) book)
         ''author'' (map_option JStr (upd_author args)))
         ''year'' (map_option JInt (upd_year args)))
         ''genres'' (map_option (\<lambda>gs. JArr (map JStr gs)) (upd_genres args)))
         ''in_stock'' (map_option JBool (upd_in_stock args))"

definition cmd_update :: "update_args \<Rightarrow> world \<Rightarrow> unit outcome" where
  "cmd_update args w =
     (case load_books w of
        SysExit n w1 \<Rightarrow> SysExit n w1
      | Uncaught e w1 \<Rightarrow> Uncaught e w1
      | NotModelled \<Rightarrow> NotModelled
      | Return books w1 \<Rightarrow>
          (case get_book_index books (upd_id args) w1 of
             SysExit n w2 \<Rightarrow> SysExit n w2
           | Uncaught e w2 \<Rightarrow> Uncaught e w2
           | NotModelled \<Rightarrow> NotModelled
           | Return idx w2 \<Rightarrow>
               (case py_index books idx of
                  Inl e \<Rightarrow> Uncaught e w2
                | Inr book \<Rightarrow>
                    (case apply_update args book of
                       Inl e \<Rightarrow> Uncaught e w2
                     | Inr book' \<Rightarrow>
                         (case py_setindex books idx book' of
                            Inl e \<Rightarrow> Uncaught e w2
                          | Inr books' \<Rightarrow>
                              (case save_books books' w2 of
                                 SysExit n w3 \<Rightarrow> SysExit n w3
                               | Uncaught e w3 \<Rightarrow> Uncaught e w3
                               | NotModelled \<Rightarrow> NotModelled
                               | Return u w3 \<Rightarrow>
                                   Return ()
                                     (print_out (''Updated book id '' @ int_repr (upd_id args))
                                        w3)))))))"

text \<open>What the f-string of \<^verbatim>\<open>cmd_delete\<close> prints for \<^verbatim>\<open>deleted['id']\<close>. The value has
  compared equal to an \<^verbatim>\<open>int\<close>, so it is an \<^verbatim>\<open>int\<close> or a \<^verbatim>\<open>bool\<close>; the \<^verbatim>\<open>repr\<close> of lists
  and dicts is not modelled.\<close>

fun py_str :: "json \<Rightarrow> string option" where
  "py_str (JInt i) = Some (int_repr i)"
| "py_str (JBool b) = Some (if b then ''True'' else ''False'')"
| "py_str JNull = Some ''None''"
| "py_str (JStr s) = Some s"
| "py_str (JArr xs) = None"
| "py_str (JObj kvs) = None"

definition cmd_delete :: "int \<Rightarrow> world \<Rightarrow> unit outcome" where
  "cmd_delete book_id w =
     (case load_books w of
        SysExit n w1 \<Rightarrow> SysExit n w1
      | Uncaught e w1 \<Rightarrow> Uncaught e w1
      | NotModelled \<Rightarrow> NotModelled
      | Return books w1 \<Rightarrow>
          (case get_book_index books book_id w1 of
             SysExit n w2 \<Rightarrow> SysExit n w2
           | Uncaught e w2 \<Rightarrow> Uncaught e w2
           | NotModelled \<Rightarrow> NotModelled
           | Return idx w2 \<Rightarrow>
               (case py_pop books idx of
                  Inl e \<Rightarrow> Uncaught e w2
                | Inr (deleted, books') \<Rightarrow>
                    (case save_books books' w2 of
                       SysExit n w3 \<Rightarrow> SysExit n w3
                     | Uncaught e w3 \<Rightarrow> Uncaught e w3
                     | NotModelled \<Rightarrow> NotModelled
                     | Return u w3 \<Rightarrow>
                         (case getitem deleted ''id'' of
                            Inl e \<Rightarrow> Uncaught e w3
                          | Inr v \<Rightarrow>
                              (case py_str v of
                                 None \<Rightarrow> NotModelled
                               | Some s \<Rightarrow> Return () (print_out (''Deleted book id '' @ s) w3)))))))"

text \<open>The parsed command line: the subcommand with its namespace.\<close>

datatype command =
    Init
  | List bool
  | Get int
  | Add add_args
  | Update update_args
  | Delete int

fun main :: "command \<Rightarrow> world \<Rightarrow> unit outcome" where
  "main Init w = cmd_init w"
| "main (List pretty) w = cmd_list pretty w"
| "main (Get book_id) w = cmd_get book_id w"
| "main (Add args) w = cmd_add args w"
| "main (Update args) w = cmd_update args w"
| "main (Delete book_id) w = cmd_delete book_id w"

subsection \<open>Books and catalogues\<close>

text \<open>A book as \<^verbatim>\<open>cmd_add\<close> writes it: the six keys in the order of its dict literal,
  with the types the argument parser gives them. A catalogue is a list of books.\<close>

record book =
  book_id :: int
  title :: string
  author :: string
  year :: int
  genres :: "string list"
  in_stock :: bool

definition book_json :: "book \<Rightarrow> json" where
  "book_json b =
     JObj [(''id'', JInt (book_id b)),
           (''title'', JStr (title b)),
           (''author'', JStr (author b)),
           (''year'', JInt (year b)),
           (''genres'', JArr (map JStr (genres b))),
           (''in_stock'', JBool (in_stock b))]"

definition catalog_json :: "book list \<Rightarrow> json" where
  "catalog_json bs = JArr (map book_json bs)"

text \<open>The book that \<^verbatim>\<open>cmd_add\<close> builds from its arguments.\<close>

definition added_book :: "add_args \<Rightarrow> book" where
  "added_book args =
     \<lparr>book_id = add_id args, title = add_title args, author = add_author args,
      year = add_year args,
      genres = (if add_genres args = [] then [] else add_genres args),
      in_stock = add_in_stock args\<rparr>"

text \<open>What the specification says of an update, to be compared with \<open>apply_update\<close>:
  a field whose option was supplied takes the supplied value, every other field keeps
  its value.\<close>

definition spec_update :: "update_args \<Rightarrow> book \<Rightarrow> book" where
  "spec_update args b =
     \<lparr>book_id = book_id b,
      title = (case upd_title args of None \<Rightarrow> title b | Some t \<Rightarrow> t),
      author = (case upd_author args of None \<Rightarrow> author b | Some a \<Rightarrow> a),
      year = (case upd_year args of None \<Rightarrow> year b | Some y \<Rightarrow> y),
      genres = (case upd_genres args of None \<Rightarrow> genres b | Some gs \<Rightarrow> gs),
      in_stock = (case upd_in_stock args of None \<Rightarrow> in_stock b | Some s \<Rightarrow> s)\<rparr>"

subsection \<open>Sample worlds\<close>

text \<open>A fresh process with the default path and the given store file, and the book of
  the example scenario.\<close>

definition store :: "string option \<Rightarrow> world" where
  "store text = \<lparr>books_file = ''books.json'', content = text, stdout = [], stderr = []\<rparr>"

definition dune :: book where
  "dune = \<lparr>book_id = 1, title = ''Dune'', author = ''Herbert'', year = 1965,
            genres = [], in_stock = True\<rparr>"

definition dune_text :: string where
  \<open>dune_text = ''[{"id": 1, "title": "Dune", "author": "Herbert", "year": 1965, "genres": [], "in_stock": true}]''\<close>

text \<open>Two store files that are JSON but not a list of records: a list that holds a
  string, and an object at the top.\<close>

definition string_store :: world where
  \<open>string_store = store (Some ''["x"]'')\<close>

definition object_store :: world where
  \<open>object_store = store (Some ''{"books": []}'')\<close>

text \<open>The store file that \<^verbatim>\<open>save_books\<close> writes for the catalogue holding \<open>dune\<close>
  alone.\<close>

definition dune_saved :: string where
  \<open>dune_saved =
     ''[\<newline>  {\<newline>    "id": 1,\<newline>    "title": "Dune",\<newline>    "author": "Herbert",\<newline>    "year": 1965,\<newline>    "genres": [],\<newline>    "in_stock": true\<newline>  }\<newline>]\<newline>''\<close>

text \<open>A store file, written by hand, in which two books share the id 1.\<close>

definition twins_store :: world where
  \<open>twins_store = store (Some (''[{"id": 1, "title": "Dune", "author": "Herbert", "year": 1965, "genres": [], "in_stock": true}, ''
     @ ''{"id": 1, "title": "Dune", "author": "Herbert", "year": 1965, "genres": [], "in_stock": true}]''))\<close>

text \<open>A second book, with a genre.\<close>

definition emma :: book where
  "emma = \<lparr>book_id = 2, title = ''Emma'', author = ''Austen'', year = 1815,
            genres = [''novel''], in_stock = True\<rparr>"

text \<open>The store that holds \<open>dune\<close> and \<open>emma\<close>, as \<^verbatim>\<open>save_books\<close> writes it.\<close>

definition shelf :: world where
  "shelf = store (Some (json_dumps True (catalog_json [dune, emma]) @ [CHR 0x0A]))"



subsection \<open>Notions used in the round trip of the encoder and the decoder\<close>

text \<open>What may follow a value in a document that the encoder wrote: nothing, a comma, a
  newline or a closing bracket.\<close>

definition terminated :: "string \<Rightarrow> bool" where
  "terminated rest =
     (case rest of
        [] \<Rightarrow> True
      | c # _ \<Rightarrow> c = CHR '','' \<or> c = CHR 0x0A \<or> c = CHR '']'' \<or> c = CHR ''}'')"






section \<open>Properties\<close>

subsection \<open>Well-formed UTF-8\<close>










lemma in_range_high: "in_range lo hi x \<Longrightarrow> 128 \<le> lo \<Longrightarrow> 128 \<le> (of_char x :: nat)"
  by (simp add: in_range_def)





declare valid_utf8.simps(2) [simp del]

subsection \<open>Loading and looking up\<close>

lemma load_books_world: "load_books w = Return books w' \<Longrightarrow> w' = w"
  by (auto simp: load_books_def split: option.splits sum.splits scan_error.splits if_splits)

lemma load_books_absent: "content w = None \<Longrightarrow> load_books w = Return (JArr []) w"
  by (simp add: load_books_def)

lemma load_books_undecodable:
  "content w = Some text \<Longrightarrow> \<not> valid_utf8 text \<Longrightarrow>
   load_books w = Uncaught UnicodeDecodeError w"
  by (simp add: load_books_def)

lemma load_books_malformed:
  "content w = Some text \<Longrightarrow> valid_utf8 text \<Longrightarrow> json_loads text = Inl JSONDecodeError \<Longrightarrow>
   load_books w = SysExit 1 (print_err (''Error: '' @ books_file w @ '' is not valid JSON.'') w)"
  by (simp add: load_books_def)

lemma getitem_book_json_id: "getitem (book_json b) ''id'' = Inr (JInt (book_id b))"
  by (simp add: book_json_def)

lemma enumerate_find_absent:
  "n \<notin> book_id ` set bs \<Longrightarrow> enumerate_find i (map book_json bs) n = Inr None"
  by (induction bs arbitrary: i) (auto simp: getitem_book_json_id)

lemma enumerate_find_first:
  "k < length bs \<Longrightarrow> book_id (bs ! k) = n \<Longrightarrow> \<forall>j<k. book_id (bs ! j) \<noteq> n \<Longrightarrow>
   enumerate_find i (map book_json bs) n = Inr (Some (i + k))"
proof (induction bs arbitrary: i k)
  case Nil
  then show ?case by simp
next
  case (Cons b bs)
  show ?case
  proof (cases k)
    case 0
    with Cons.prems show ?thesis by (simp add: getitem_book_json_id)
  next
    case (Suc k')
    with Cons.prems have "book_id b \<noteq> n" by auto
    moreover from Cons.prems Suc have "enumerate_find (Suc i) (map book_json bs) n = Inr (Some (Suc i + k'))"
      by (intro Cons.IH) auto
    ultimately show ?thesis using Suc by (simp add: getitem_book_json_id)
  qed
qed

lemma any_id_eq_catalog:
  "any_id_eq (map book_json bs) n = Inr (n \<in> book_id ` set bs)"
  by (induction bs) (auto simp: getitem_book_json_id)

lemma get_book_index_absent:
  "n \<notin> book_id ` set bs \<Longrightarrow>
   get_book_index (catalog_json bs) n w =
     SysExit 1 (print_err (''Error: Book with id '' @ int_repr n @ '' not found.'') w)"
  by (simp add: get_book_index_def catalog_json_def enumerate_find_absent)

lemma get_book_index_first:
  "k < length bs \<Longrightarrow> book_id (bs ! k) = n \<Longrightarrow> \<forall>j<k. book_id (bs ! j) \<noteq> n \<Longrightarrow>
   get_book_index (catalog_json bs) n w = Return k w"
  using enumerate_find_first [of k bs n 0]
  by (simp add: get_book_index_def catalog_json_def)

text \<open>An index that \<open>get_book_index\<close> returns is an index into a list.\<close>

lemma enumerate_find_bound:
  "enumerate_find i bs n = Inr (Some k) \<Longrightarrow> i \<le> k \<and> k < i + length bs"
proof (induction bs arbitrary: i)
  case Nil
  then show ?case by simp
next
  case (Cons b bs)
  then show ?case
    by (fastforce split: sum.splits if_splits)
qed

lemma enumerate_find_not_str:
  "enumerate_find i (map f xs) n = Inr (Some k) \<Longrightarrow> \<forall>x. \<exists>s. f x = JStr s \<Longrightarrow> False"
proof (cases xs)
  case Nil
  assume "enumerate_find i (map f xs) n = Inr (Some k)"
  with Nil show False by simp
next
  case (Cons x xs')
  assume a: "enumerate_find i (map f xs) n = Inr (Some k)" and s: "\<forall>x. \<exists>s. f x = JStr s"
  from s obtain t where "f x = JStr t" by blast
  with a Cons show False by simp
qed

lemma get_book_index_array:
  assumes "get_book_index books n w = Return k w'"
  shows "\<exists>xs. books = JArr xs \<and> k < length xs"
proof (cases books)
  case (JArr xs)
  with assms have "enumerate_find 0 xs n = Inr (Some k)"
    by (auto simp: get_book_index_def split: sum.splits option.splits)
  from enumerate_find_bound [OF this] JArr show ?thesis by simp
next
  case (JObj kvs)
  with assms have "enumerate_find 0 (map (\<lambda>(k, v). JStr k) kvs) n = Inr (Some k)"
    by (auto simp: get_book_index_def split: sum.splits option.splits)
  then have False by (rule enumerate_find_not_str) auto
  then show ?thesis ..
next
  case (JStr s)
  with assms have "enumerate_find 0 (map (\<lambda>c. JStr [c]) s) n = Inr (Some k)"
    by (auto simp: get_book_index_def split: sum.splits option.splits)
  then have False by (rule enumerate_find_not_str) auto
  then show ?thesis ..
qed (use assms in \<open>auto simp: get_book_index_def\<close>)

subsection \<open>Claims about failures\<close>

text \<open>
  C2. For every catalogue, empty or not (an absent store file loads as the empty
  catalogue), and every id that no book of it holds, \<^verbatim>\<open>get\<close>, \<^verbatim>\<open>update\<close> and \<^verbatim>\<open>delete\<close>
  each print the not-found message on the error stream and leave through
  \<^verbatim>\<open>sys.exit(1)\<close>; the world they leave differs from the one they found in that line
  only, so the store file is untouched.
\<close>

theorem not_found_leaves_store:
  assumes "load_books w = Return (catalog_json bs) w"
      and "n \<notin> book_id ` set bs"
      and "upd_id args = n"
  shows "cmd_get n w = SysExit 1 (w\<lparr>stderr := stderr w @ [''Error: Book with id '' @ int_repr n @ '' not found.'']\<rparr>)
       \<and> cmd_update args w = SysExit 1 (w\<lparr>stderr := stderr w @ [''Error: Book with id '' @ int_repr n @ '' not found.'']\<rparr>)
       \<and> cmd_delete n w = SysExit 1 (w\<lparr>stderr := stderr w @ [''Error: Book with id '' @ int_repr n @ '' not found.'']\<rparr>)"
  using assms
  by (simp add: cmd_get_def cmd_update_def cmd_delete_def get_book_index_absent print_err_def)

text \<open>When the bytes of the store file are UTF-8 and the decoder rejects the text, every
  command that loads the store prints the message of \<^verbatim>\<open>load_books\<close> on the error stream
  and leaves through \<^verbatim>\<open>sys.exit(1)\<close>; nothing else of the world changes.\<close>

lemma decode_error_stops:
  assumes "content w = Some text"
      and "valid_utf8 text"
      and "json_loads text = Inl JSONDecodeError"
      and "c \<noteq> Init"
  shows "main c w = SysExit 1 (w\<lparr>stderr := stderr w @ [''Error: '' @ books_file w @ '' is not valid JSON.'']\<rparr>)"
  using assms
  by (cases c)
     (simp_all add: cmd_list_def cmd_get_def cmd_add_def cmd_update_def cmd_delete_def
        load_books_malformed print_err_def)

lemma undecodable_stops:
  assumes "content w = Some text"
      and "\<not> valid_utf8 text"
      and "c \<noteq> Init"
  shows "main c w = Uncaught UnicodeDecodeError w"
  using assms
  by (cases c)
     (simp_all add: cmd_list_def cmd_get_def cmd_add_def cmd_update_def cmd_delete_def
        load_books_undecodable)

text \<open>
  C5. A store file that holds the single byte \<open>0xFF\<close> exists and is not JSON: it is not
  even UTF-8. \<^verbatim>\<open>json.load\<close> raises \<^verbatim>\<open>UnicodeDecodeError\<close> on it, which the handler of
  \<^verbatim>\<open>load_books\<close>, written for \<^verbatim>\<open>json.JSONDecodeError\<close>, does not catch. Every command
  that loads the store ends with that exception: nothing is printed on the error stream
  by the program, and the world, the file included, stays as it was.
\<close>

theorem undecodable_store_uncaught:
  "\<not> valid_utf8 [CHR 0xFF]
   \<and> load_books (store (Some [CHR 0xFF])) = Uncaught UnicodeDecodeError (store (Some [CHR 0xFF]))
   \<and> (\<forall>pretty. main (List pretty) (store (Some [CHR 0xFF]))
          = Uncaught UnicodeDecodeError (store (Some [CHR 0xFF])))
   \<and> (\<forall>n. main (Get n) (store (Some [CHR 0xFF]))
          = Uncaught UnicodeDecodeError (store (Some [CHR 0xFF]))
        \<and> main (Delete n) (store (Some [CHR 0xFF]))
          = Uncaught UnicodeDecodeError (store (Some [CHR 0xFF])))
   \<and> (\<forall>args. main (Add args) (store (Some [CHR 0xFF]))
          = Uncaught UnicodeDecodeError (store (Some [CHR 0xFF])))
   \<and> (\<forall>args. main (Update args) (store (Some [CHR 0xFF]))
          = Uncaught UnicodeDecodeError (store (Some [CHR 0xFF])))
   \<and> stderr (store (Some [CHR 0xFF])) = []"
proof -
  have v: "\<not> valid_utf8 [CHR 0xFF]"
    by code_simp
  have c: "content (store (Some [CHR 0xFF])) = Some [CHR 0xFF]"
    by (simp add: store_def)
  have l: "load_books (store (Some [CHR 0xFF])) = Uncaught UnicodeDecodeError (store (Some [CHR 0xFF]))"
    using c v by (rule load_books_undecodable)
  have m: "main k (store (Some [CHR 0xFF])) = Uncaught UnicodeDecodeError (store (Some [CHR 0xFF]))"
    if "k \<noteq> Init" for k
    using c v that by (rule undecodable_stops)
  have e: "stderr (store (Some [CHR 0xFF])) = []"
    by (simp add: store_def)
  have k: "cmd_list p (store (Some [CHR 0xFF])) = Uncaught UnicodeDecodeError (store (Some [CHR 0xFF]))"
    "cmd_get n (store (Some [CHR 0xFF])) = Uncaught UnicodeDecodeError (store (Some [CHR 0xFF]))"
    "cmd_delete n (store (Some [CHR 0xFF])) = Uncaught UnicodeDecodeError (store (Some [CHR 0xFF]))"
    "cmd_add a (store (Some [CHR 0xFF])) = Uncaught UnicodeDecodeError (store (Some [CHR 0xFF]))"
    "cmd_update u (store (Some [CHR 0xFF])) = Uncaught UnicodeDecodeError (store (Some [CHR 0xFF]))"
    for p n a u
    using m [of "List p"] m [of "Get n"] m [of "Delete n"] m [of "Add a"] m [of "Update u"]
    by simp_all
  from v l k e show ?thesis
    by simp
qed

lemma load_dune: "load_books (store (Some dune_text)) = Return (catalog_json [dune]) (store (Some dune_text))"
  by code_simp

theorem not_found_leaves_store_witness:
  "load_books (store (Some dune_text)) = Return (catalog_json [dune]) (store (Some dune_text))
   \<and> 2 \<notin> book_id ` set [dune]
   \<and> cmd_get 2 (store (Some dune_text))
       = SysExit 1 ((store (Some dune_text))\<lparr>stderr := [''Error: Book with id 2 not found.'']\<rparr>)
   \<and> cmd_delete 2 (store (Some dune_text))
       = SysExit 1 ((store (Some dune_text))\<lparr>stderr := [''Error: Book with id 2 not found.'']\<rparr>)"
proof -
  have r: "int_repr 2 = ''2''" by code_simp
  have e: "stderr (store (Some dune_text)) = []" by (simp add: store_def)
  have h: "2 \<notin> book_id ` set [dune]" by (simp add: dune_def)
  show ?thesis
    using not_found_leaves_store [OF load_dune h, of "\<lparr>upd_id = 2, upd_title = None, upd_author = None,
      upd_year = None, upd_genres = None, upd_in_stock = None\<rparr>"] h load_dune
    by (simp add: r e)
qed


subsection \<open>Claims about single commands\<close>

text \<open>
  C6. \<^verbatim>\<open>init\<close> is idempotent. When the store file exists, whatever its text, \<^verbatim>\<open>init\<close>
  prints that it already exists, changes nothing else and returns (exit status 0). When
  the store file does not exist, \<^verbatim>\<open>init\<close> writes the empty catalogue, which loads as the
  empty list. A second \<^verbatim>\<open>init\<close> after a first one therefore leaves the file as the
  first one left it.
\<close>

theorem init_idempotent:
  "(content w = Some text \<longrightarrow>
      cmd_init w = Return () (w\<lparr>stdout := stdout w @ [books_file w @ '' already exists.'']\<rparr>))
   \<and> (content w = None \<longrightarrow>
      cmd_init w = Return () (w\<lparr>content := Some ''[]\<newline>'',
                                 stdout := stdout w @ [''Created empty '' @ books_file w]\<rparr>)
      \<and> load_books (w\<lparr>content := Some ''[]\<newline>''\<rparr>) = Return (JArr []) (w\<lparr>content := Some ''[]\<newline>''\<rparr>))
   \<and> (\<forall>w1. cmd_init w = Return () w1 \<longrightarrow>
        (\<exists>w2. cmd_init w1 = Return () w2 \<and> content w2 = content w1
              \<and> exit_status (cmd_init w1) = Some 0))"
proof -
  have l: "json_loads ''[]\<newline>'' = Inr (JArr [])"
    by code_simp
  have v: "valid_utf8 ''[]\<newline>''"
    by code_simp
  have c: "valid_utf8 ''[]''" "valid_utf8 ''\<newline>''"
    by code_simp+
  have s: "save_books (JArr []) w = Return () (w\<lparr>content := Some ''[]\<newline>''\<rparr>)"
    by (simp add: save_books_def c)
  show ?thesis
    by (auto simp: cmd_init_def print_out_def s load_books_def l v)
qed

theorem init_idempotent_witness:
  "cmd_init (store (Some dune_text))
     = Return () ((store (Some dune_text))\<lparr>stdout := [''books.json already exists.'']\<rparr>)
   \<and> cmd_init (store None)
     = Return () ((store None)\<lparr>content := Some ''[]\<newline>'', stdout := [''Created empty books.json'']\<rparr>)
   \<and> (\<exists>w2. cmd_init ((store None)\<lparr>content := Some ''[]\<newline>'', stdout := [''Created empty books.json'']\<rparr>)
               = Return () w2 \<and> content w2 = Some ''[]\<newline>'')"
proof -
  have a: "content (store (Some dune_text)) = Some dune_text" "content (store None) = None"
    by (simp_all add: store_def)
  have b: "cmd_init (store (Some dune_text))
     = Return () ((store (Some dune_text))\<lparr>stdout := [''books.json already exists.'']\<rparr>)"
    using init_idempotent [of "store (Some dune_text)" dune_text] a by (simp add: store_def)
  have c: "cmd_init (store None)
     = Return () ((store None)\<lparr>content := Some ''[]\<newline>'', stdout := [''Created empty books.json'']\<rparr>)"
    using init_idempotent [of "store None" "[]"] a by (simp add: store_def)
  have "\<exists>w2. cmd_init ((store None)\<lparr>content := Some ''[]\<newline>'', stdout := [''Created empty books.json'']\<rparr>)
               = Return () w2
            \<and> content w2 = content ((store None)\<lparr>content := Some ''[]\<newline>'', stdout := [''Created empty books.json'']\<rparr>)"
    using init_idempotent [of "store None" "[]"] c by blast
  then have d: "\<exists>w2. cmd_init ((store None)\<lparr>content := Some ''[]\<newline>'', stdout := [''Created empty books.json'']\<rparr>)
               = Return () w2 \<and> content w2 = Some ''[]\<newline>''"
    by simp
  from b c d show ?thesis by blast
qed

text \<open>
  C9. \<^verbatim>\<open>load_books\<close> checks nothing about the shape of what it parsed. The store file
  \<^verbatim>\<open>["x"]\<close> loads as a list holding a string, and the store file \<^verbatim>\<open>{"books": []}\<close> loads
  as a dict. On either, the id lookup of \<^verbatim>\<open>get\<close>, \<^verbatim>\<open>add\<close>, \<^verbatim>\<open>update\<close> and \<^verbatim>\<open>delete\<close>
  subscripts a string with \<^verbatim>\<open>"id"\<close> and raises \<^verbatim>\<open>TypeError\<close>, which nothing catches: no
  message of the program is printed and the world is left as it was found.
\<close>

theorem unvalidated_shape_raises:
  "load_books string_store = Return (JArr [JStr ''x'']) string_store
   \<and> load_books object_store = Return (JObj [(''books'', JArr [])]) object_store
   \<and> (\<forall>n. cmd_get n string_store = Uncaught TypeError string_store
          \<and> cmd_get n object_store = Uncaught TypeError object_store
          \<and> cmd_delete n string_store = Uncaught TypeError string_store
          \<and> cmd_delete n object_store = Uncaught TypeError object_store)
   \<and> (\<forall>args. cmd_add args string_store = Uncaught TypeError string_store
          \<and> cmd_add args object_store = Uncaught TypeError object_store)
   \<and> (\<forall>args. cmd_update args string_store = Uncaught TypeError string_store
          \<and> cmd_update args object_store = Uncaught TypeError object_store)"
proof -
  have s: "load_books string_store = Return (JArr [JStr ''x'']) string_store"
    by code_simp
  have ob: "load_books object_store = Return (JObj [(''books'', JArr [])]) object_store"
    by code_simp
  have g: "get_book_index (JArr [JStr ''x'']) n w = Uncaught TypeError w"
          "get_book_index (JObj [(''books'', JArr [])]) n w = Uncaught TypeError w" for n w
    by (simp_all add: get_book_index_def)
  have u: "ensure_unique_id (JArr [JStr ''x'']) n w = Uncaught TypeError w"
          "ensure_unique_id (JObj [(''books'', JArr [])]) n w = Uncaught TypeError w" for n w
    by (simp_all add: ensure_unique_id_def)
  show ?thesis
    by (simp add: s ob g u cmd_get_def cmd_delete_def cmd_add_def cmd_update_def)
qed

text \<open>
  C7. The example scenario. In a store that holds the empty catalogue, \<^verbatim>\<open>add\<close> with id
  1, title Dune, author Herbert, year 1965 and neither \<^verbatim>\<open>--genres\<close> nor a stock flag
  writes the file shown, which loads as the one book \<open>dune\<close>, whose genres are the empty
  list and which is in stock. \<^verbatim>\<open>delete\<close> with id 1 then writes the empty catalogue
  again.
\<close>

theorem dune_scenario:
  "cmd_add (sp_add 1 ''Dune'' ''Herbert'' 1965 None None) (store (Some ''[]\<newline>''))
     = Return () ((store (Some dune_saved))\<lparr>stdout := [''Added book id 1'']\<rparr>)
   \<and> load_books ((store (Some dune_saved))\<lparr>stdout := [''Added book id 1'']\<rparr>)
     = Return (catalog_json [dune]) ((store (Some dune_saved))\<lparr>stdout := [''Added book id 1'']\<rparr>)
   \<and> genres dune = [] \<and> in_stock dune = True
   \<and> cmd_delete 1 ((store (Some dune_saved))\<lparr>stdout := [''Added book id 1'']\<rparr>)
     = Return () ((store (Some ''[]\<newline>''))\<lparr>stdout := [''Added book id 1'', ''Deleted book id 1'']\<rparr>)
   \<and> load_books ((store (Some ''[]\<newline>''))\<lparr>stdout := [''Added book id 1'', ''Deleted book id 1'']\<rparr>)
     = Return (JArr []) ((store (Some ''[]\<newline>''))\<lparr>stdout := [''Added book id 1'', ''Deleted book id 1'']\<rparr>)"
  by code_simp


subsection \<open>The decoder reads back what the encoder wrote\<close>





















declare scan_once.simps [simp del] parse_array.simps [simp del] parse_object.simps [simp del]


lemma starts_with_Nil: "starts_with (p # ps) [] = False"
  by (simp add: starts_with_def)










declare scanstring.simps [simp del]
























lemma terminated_simps:
  "terminated []" "terminated (CHR '','' # s)" "terminated (CHR 0x0A # s)"
  "terminated (CHR '']'' # s)" "terminated (CHR ''}'' # s)"
  by (simp_all add: terminated_def)
















lemma encode_basestring_Cons: "encode_basestring k = CHR 0x22 # tl (encode_basestring k)"
  by (simp add: encode_basestring_def)







subsection \<open>Saving and loading\<close>


























lemma load_books_same_content:
  "load_books w = Return v w \<Longrightarrow> content w' = content w \<Longrightarrow> load_books w' = Return v w'"
  by (auto simp: load_books_def split: option.splits sum.splits scan_error.splits if_splits)














end
